theory Spec2Isabelle
  imports Complex_Main "HOL-Library.AList"
begin

chapter \<open>Autoconf: a device-automation gateway (app.py, graphql_schema.py, netmiko_config.py)\<close>

section \<open>Text: the ping output parser of app.py\<close>

text \<open>
  A Python \<open>str\<close> is modelled as a \<open>string\<close> whose characters are the code points
  0..255. In that range the regular-expression classes of Python 3 are: \<open>\d\<close> the ten
  ASCII digits; \<open>\s\<close> the code points 9..13, 28..32, 133 and 160; and under
  \<open>re.IGNORECASE\<close> a letter of the pattern \<open>time\<close>/\<open>ms\<close> matches exactly its two
  ASCII cases.
\<close>

definition is_digit :: "char \<Rightarrow> bool" where
  "is_digit c = (c \<in> set ''0123456789'')"

definition is_space :: "char \<Rightarrow> bool" where
  "is_space c = ((of_char c :: nat) \<in> set [9, 10, 11, 12, 13, 28, 29, 30, 31, 32, 133, 160])"

definition ascii_lower :: "char \<Rightarrow> char" where
  "ascii_lower c =
     (if c \<in> set ''ABCDEFGHIJKLMNOPQRSTUVWXYZ'' then char_of ((of_char c :: nat) + 32) else c)"

text \<open>\<open>s.startswith(p)\<close> and \<open>p in s\<close> of Python, both case-sensitive.\<close>

fun startswith :: "string \<Rightarrow> string \<Rightarrow> bool" where
  "startswith s [] = True"
| "startswith [] (p # ps) = False"
| "startswith (c # cs) (p # ps) = (c = p \<and> startswith cs ps)"

fun contains :: "string \<Rightarrow> string \<Rightarrow> bool" where
  "contains [] p = (p = [])"
| "contains (c # cs) p = (startswith (c # cs) p \<or> contains cs p)"

text \<open>\<open>s.split('\n')\<close>: the pieces between line feeds, empty pieces kept.\<close>

fun split_nl :: "string \<Rightarrow> string list" where
  "split_nl [] = [[]]"
| "split_nl (c # cs) =
     (if c = CHR 0x0A then [] # split_nl cs
      else (case split_nl cs of [] \<Rightarrow> [[c]] | l # ls \<Rightarrow> (c # l) # ls))"

text \<open>
  A literal of the pattern (given in lower case) matched case-insensitively at the head
  of the subject; the result is the rest of the subject.
\<close>

fun match_literal_ci :: "string \<Rightarrow> string \<Rightarrow> string option" where
  "match_literal_ci [] s = Some s"
| "match_literal_ci (p # ps) [] = None"
| "match_literal_ci (p # ps) (c # cs) =
     (if ascii_lower c = p then match_literal_ci ps cs else None)"

text \<open>
  The pattern \<^verbatim>\<open>time[=<]\s*(\d+(?:\.\d+)?)\s*ms\<close> anchored at the head of the subject;
  the result is group 1. Every repetition of the pattern is followed by something its own
  class excludes (a digit after \<open>\s*\<close>, a non-digit after \<open>\d+\<close>, \<open>m\<close> after the
  last \<open>\s*\<close>), and the optional fraction starts with a dot that nothing else of the
  pattern accepts, so the greedy reading below is the only way the backtracking matcher
  can succeed.
\<close>

definition match_time_here :: "string \<Rightarrow> string option" where
  "match_time_here s =
     (case match_literal_ci ''time'' s of
        None \<Rightarrow> None
      | Some [] \<Rightarrow> None
      | Some (c # r2) \<Rightarrow>
          if c = CHR ''='' \<or> c = CHR ''<'' then
            let r3 = dropWhile is_space r2;
                ds = takeWhile is_digit r3;
                r4 = dropWhile is_digit r3;
                fr = (case r4 of
                        [] \<Rightarrow> []
                      | d # r \<Rightarrow> if d = CHR ''.'' then takeWhile is_digit r else []);
                r5 = (if fr = [] then r4 else dropWhile is_digit (tl r4));
                r6 = dropWhile is_space r5
            in if ds = [] then None
               else (case match_literal_ci ''ms'' r6 of
                       None \<Rightarrow> None
                     | Some _ \<Rightarrow> Some (if fr = [] then ds else ds @ CHR ''.'' # fr))
          else None)"

text \<open>\<open>re.search\<close>: the leftmost position at which the pattern matches.\<close>

fun re_search_time :: "string \<Rightarrow> string option" where
  "re_search_time [] = match_time_here []"
| "re_search_time (c # cs) =
     (case match_time_here (c # cs) of
        Some g \<Rightarrow> Some g
      | None \<Rightarrow> re_search_time cs)"

text \<open>
  \<open>float(group)\<close> on a decimal numeral \<open>ddd\<close> or \<open>ddd.ddd\<close>. The model keeps the exact
  rational value of the numeral; Python rounds it to the nearest double.
\<close>

definition digits_value :: "string \<Rightarrow> nat" where
  "digits_value s = foldl (\<lambda>a c. 10 * a + (of_char c - 48)) 0 s"

definition py_float :: "string \<Rightarrow> rat" where
  "py_float s =
     (let ip = takeWhile (\<lambda>c. c \<noteq> CHR ''.'') s;
          fp = drop 1 (dropWhile (\<lambda>c. c \<noteq> CHR ''.'') s)
      in of_nat (digits_value ip) + of_nat (digits_value fp) / 10 ^ length fp)"

text \<open>The loop of \<open>extract_response_time\<close> over the lines, with its early return.\<close>

fun extract_response_time_loop :: "string list \<Rightarrow> rat option" where
  "extract_response_time_loop [] = None"
| "extract_response_time_loop (line # lines) =
     (if contains line ''time='' \<or> contains line ''tiempo='' then
        (case re_search_time line of
           Some g \<Rightarrow> Some (py_float g)
         | None \<Rightarrow> extract_response_time_loop lines)
      else extract_response_time_loop lines)"

definition extract_response_time :: "string \<Rightarrow> rat option" where
  "extract_response_time ping_output = extract_response_time_loop (split_nl ping_output)"

text \<open>What one line alone yields: the loop run on that line only.\<close>

definition line_time :: "string \<Rightarrow> rat option" where
  "line_time line = extract_response_time_loop [line]"

section \<open>Python values, exceptions and the outside world\<close>

text \<open>
  What \<open>yaml.safe_load\<close> and \<open>request.get_json\<close> hand to the program: null, integers,
  strings, sequences and mappings with string keys (floats, booleans and other keys are
  left out). A mapping is its list of entries in insertion order, looked up by key.
\<close>

datatype yaml = YNull | YInt int | YStr string | YList "yaml list" | YDict "(string \<times> yaml) list"

datatype pyexn =
    KeyError string
  | TypeError
  | AttributeError
  | ValueError
  | YAMLError
  | NetmikoTimeoutException
  | NetmikoAuthenticationException
  | OtherException string

text \<open>\<open>bool(v)\<close>, as \<open>if v\<close> and \<open>not v\<close> read it.\<close>

fun truthy :: "yaml \<Rightarrow> bool" where
  "truthy YNull = False"
| "truthy (YInt i) = (i \<noteq> 0)"
| "truthy (YStr s) = (s \<noteq> [])"
| "truthy (YList xs) = (xs \<noteq> [])"
| "truthy (YDict kvs) = (kvs \<noteq> [])"

text \<open>
  \<open>for x in v\<close>: a list yields its elements, a string its characters, a mapping its
  keys; null and integers are not iterable.
\<close>

fun py_iter :: "yaml \<Rightarrow> pyexn + yaml list" where
  "py_iter (YList xs) = Inr xs"
| "py_iter (YStr s) = Inr (map (\<lambda>c. YStr [c]) s)"
| "py_iter (YDict kvs) = Inr (map (\<lambda>kv. YStr (fst kv)) kvs)"
| "py_iter YNull = Inl TypeError"
| "py_iter (YInt i) = Inl TypeError"

text \<open>\<open>v[k]\<close> with a string key \<open>k\<close>.\<close>

fun py_getitem :: "yaml \<Rightarrow> string \<Rightarrow> pyexn + yaml" where
  "py_getitem (YDict kvs) k = (case map_of kvs k of None \<Rightarrow> Inl (KeyError k) | Some v \<Rightarrow> Inr v)"
| "py_getitem v k = Inl TypeError"

text \<open>\<open>v.get(k, default)\<close>: only a mapping has the attribute.\<close>

fun py_get :: "yaml \<Rightarrow> string \<Rightarrow> yaml \<Rightarrow> pyexn + yaml" where
  "py_get (YDict kvs) k dflt = (case map_of kvs k of None \<Rightarrow> Inr dflt | Some v \<Rightarrow> Inr v)"
| "py_get v k dflt = Inl AttributeError"

text \<open>\<open>v[k] = x\<close> with a string key: an entry is replaced in place or added last.\<close>

fun py_setitem :: "yaml \<Rightarrow> string \<Rightarrow> yaml \<Rightarrow> pyexn + yaml" where
  "py_setitem (YDict kvs) k x = Inr (YDict (AList.update k x kvs))"
| "py_setitem v k x = Inl TypeError"

text \<open>\<open>v.append(x)\<close>: only a list has the attribute.\<close>

fun py_append :: "yaml \<Rightarrow> yaml \<Rightarrow> pyexn + yaml" where
  "py_append (YList xs) x = Inr (YList (xs @ [x]))"
| "py_append v x = Inl AttributeError"

text \<open>\<open>lit + v\<close> for a string literal \<open>lit\<close>.\<close>

fun py_concat :: "string \<Rightarrow> yaml \<Rightarrow> pyexn + string" where
  "py_concat lit (YStr s) = Inr (lit @ s)"
| "py_concat lit v = Inl TypeError"

text \<open>
  The effects the program has on the outside: overwriting \<open>devices.yaml\<close>, the calls on a
  Netmiko connection, the ping subprocess and the backup file. Each is logged when it is
  attempted, whether or not it then fails.
\<close>

datatype event =
    EvSave yaml
  | EvConnect "(string \<times> yaml) list"
  | EvEnable
  | EvSendCommand string
  | EvSendConfigSet yaml
  | EvSaveConfig
  | EvDisconnect
  | EvPing "yaml list"
  | EvWriteBackup string string

text \<open>
  \<open>devices.yaml\<close>: missing, not parseable (\<open>yaml.safe_load\<close> raises \<open>YAMLError\<close>), or a
  document (the empty file is the document \<open>YNull\<close>).
\<close>

datatype file_state = Absent | Malformed | Document yaml

record world =
  devices_file :: file_state
  trace :: "event list"

text \<open>
  The libraries and the devices behind them are parameters: each answer may depend on
  everything done so far (the trace) and may be an exception. \<open>subprocess_run\<close> answers
  with the completed process (return code, stdout, stderr), with the expiry of the
  timeout (and the output captured so far) or with another exception. \<open>open_backup\<close> is
  opening the backup file for writing, \<open>now_compact\<close> the clock read as
  \<open>%Y%m%d%H%M%S\<close>, \<open>yaml_safe_load\<close> the parser on a request's template, \<open>str_exn\<close> and
  \<open>str_value\<close> Python's \<open>str\<close> on an exception and on a value. Closing a session does
  not fail.
\<close>

datatype run_outcome =
    Completed int string string
  | TimeoutExpired string
  | RunFailed pyexn

record env =
  nm_connect :: "event list \<Rightarrow> (string \<times> yaml) list \<Rightarrow> pyexn option"
  nm_enable :: "event list \<Rightarrow> pyexn option"
  nm_send_command :: "event list \<Rightarrow> string \<Rightarrow> pyexn + string"
  nm_send_config_set :: "event list \<Rightarrow> yaml \<Rightarrow> pyexn + string"
  nm_save_config :: "event list \<Rightarrow> pyexn option"
  subprocess_run :: "event list \<Rightarrow> yaml list \<Rightarrow> run_outcome"
  is_windows :: bool
  open_backup :: "event list \<Rightarrow> string \<Rightarrow> pyexn option"
  now_compact :: string
  yaml_safe_load :: "yaml \<Rightarrow> pyexn + yaml"
  str_exn :: "pyexn \<Rightarrow> string"
  str_value :: "yaml \<Rightarrow> string"

text \<open>Sequencing of steps that may raise: the first exception ends the sequence.\<close>

definition bind_exn :: "pyexn + 'a \<Rightarrow> ('a \<Rightarrow> pyexn + 'b) \<Rightarrow> pyexn + 'b" where
  "bind_exn r f = (case r of Inl e \<Rightarrow> Inl e | Inr v \<Rightarrow> f v)"

definition log_event :: "event \<Rightarrow> world \<Rightarrow> world" where
  "log_event ev w = w\<lparr>trace := trace w @ [ev]\<rparr>"

section \<open>netmiko\_config.py\<close>

definition load_devices :: "world \<Rightarrow> pyexn + yaml" where
  "load_devices w =
     (case devices_file w of
        Absent \<Rightarrow> Inr (YList [])
      | Malformed \<Rightarrow> Inl YAMLError
      | Document d \<Rightarrow> py_get (if truthy d then d else YDict []) ''devices'' (YList []))"

text \<open>
  \<open>save_devices\<close> overwrites the file with the dump of its argument. Writing is taken
  not to fail, and the file to parse back to the value written.
\<close>

definition save_devices :: "yaml \<Rightarrow> world \<Rightarrow> world" where
  "save_devices devices w = log_event (EvSave devices) (w\<lparr>devices_file := Document devices\<rparr>)"

text \<open>
  \<open>configure_device\<close>. The body of its \<open>try\<close>: the keyword arguments are read in order,
  then the session is opened, the commands sent, the configuration saved and the session
  closed. The \<open>except\<close> turns whatever was raised into the returned text, which names
  the device.
\<close>

definition configure_device_args :: "yaml \<Rightarrow> pyexn + (string \<times> yaml) list" where
  "configure_device_args device =
     bind_exn (py_getitem device ''device_type'') (\<lambda>dt.
     bind_exn (py_getitem device ''ip'') (\<lambda>ip.
     bind_exn (py_getitem device ''username'') (\<lambda>un.
     bind_exn (py_getitem device ''password'') (\<lambda>pw.
       Inr [(''device_type'', dt), (''host'', ip), (''username'', un), (''password'', pw)]))))"

definition configure_device_session ::
  "env \<Rightarrow> (string \<times> yaml) list \<Rightarrow> string list \<Rightarrow> world \<Rightarrow> (pyexn + string) \<times> world" where
  "configure_device_session E args commands w =
     (let w1 = log_event (EvConnect args) w in
      case nm_connect E (trace w) args of
        Some e \<Rightarrow> (Inl e, w1)
      | None \<Rightarrow>
         (let cmds = YList (map YStr commands);
              w2 = log_event (EvSendConfigSet cmds) w1 in
          case nm_send_config_set E (trace w1) cmds of
            Inl e \<Rightarrow> (Inl e, w2)
          | Inr output \<Rightarrow>
             (let w3 = log_event EvSaveConfig w2 in
              case nm_save_config E (trace w2) of
                Some e \<Rightarrow> (Inl e, w3)
              | None \<Rightarrow> (Inr output, log_event EvDisconnect w3))))"

definition configure_device_try ::
  "env \<Rightarrow> yaml \<Rightarrow> string list \<Rightarrow> world \<Rightarrow> (pyexn + string) \<times> world" where
  "configure_device_try E device commands w =
     (case configure_device_args device of
        Inl e \<Rightarrow> (Inl e, w)
      | Inr args \<Rightarrow> configure_device_session E args commands w)"

definition configure_device ::
  "env \<Rightarrow> yaml \<Rightarrow> string list \<Rightarrow> world \<Rightarrow> (pyexn + string) \<times> world" where
  "configure_device E device commands w =
     (case configure_device_try E device commands w of
        (Inr output, w') \<Rightarrow> (Inr output, w')
      | (Inl e, w') \<Rightarrow>
          (case py_getitem device ''name'' of
             Inl e' \<Rightarrow> (Inl e', w')
           | Inr n \<Rightarrow> (Inr (''Error configurando '' @ str_value E n @ '': '' @ str_exn E e), w')))"

section \<open>graphql\_schema.py\<close>

text \<open>
  The resolvers and mutations are modelled as the Python functions they are; the
  GraphQL layer around them (argument coercion, serialisation of the result) is not.
  \<open>DeviceInput\<close> has six required strings. A \<open>Device\<close> object has seven attributes, each
  \<open>None\<close> unless given; \<open>Device(**dev)\<close> refuses a keyword that is not one of them.
\<close>

record DeviceInput =
  name :: string
  host :: string
  username :: string
  password :: string
  secret :: string
  device_type :: string

record Device =
  d_id :: yaml
  d_name :: yaml
  d_host :: yaml
  d_username :: yaml
  d_password :: yaml
  d_secret :: yaml
  d_device_type :: yaml

definition Device_fields :: "string list" where
  "Device_fields = [''id'', ''name'', ''host'', ''username'', ''password'', ''secret'', ''device_type'']"

definition attr :: "(string \<times> yaml) list \<Rightarrow> string \<Rightarrow> yaml" where
  "attr kvs k = (case map_of kvs k of None \<Rightarrow> YNull | Some v \<Rightarrow> v)"

definition Device_new :: "(string \<times> yaml) list \<Rightarrow> pyexn + Device" where
  "Device_new kvs =
     (if list_all (\<lambda>kv. fst kv \<in> set Device_fields) kvs then
        Inr \<lparr>d_id = attr kvs ''id'', d_name = attr kvs ''name'', d_host = attr kvs ''host'',
             d_username = attr kvs ''username'', d_password = attr kvs ''password'',
             d_secret = attr kvs ''secret'', d_device_type = attr kvs ''device_type''\<rparr>
      else Inl TypeError)"

text \<open>\<open>Query.resolve_devices\<close>: the records that are mappings, as \<open>Device\<close> objects.\<close>

fun resolve_devices_loop :: "yaml list \<Rightarrow> pyexn + Device list" where
  "resolve_devices_loop [] = Inr []"
| "resolve_devices_loop (YDict kvs # rest) =
     bind_exn (Device_new kvs) (\<lambda>d.
     bind_exn (resolve_devices_loop rest) (\<lambda>ds. Inr (d # ds)))"
| "resolve_devices_loop (v # rest) = resolve_devices_loop rest"

definition resolve_devices :: "world \<Rightarrow> pyexn + Device list" where
  "resolve_devices w =
     bind_exn (load_devices w) (\<lambda>devices.
     bind_exn (py_iter devices) resolve_devices_loop)"

text \<open>\<open>Query.resolve_device_by_id\<close>: the first mapping whose \<open>id\<close> equals the argument.\<close>

fun resolve_device_by_id_loop :: "yaml list \<Rightarrow> int \<Rightarrow> pyexn + Device option" where
  "resolve_device_by_id_loop [] i = Inr None"
| "resolve_device_by_id_loop (YDict kvs # rest) i =
     (if attr kvs ''id'' = YInt i then bind_exn (Device_new kvs) (\<lambda>d. Inr (Some d))
      else resolve_device_by_id_loop rest i)"
| "resolve_device_by_id_loop (v # rest) i = resolve_device_by_id_loop rest i"

definition resolve_device_by_id :: "world \<Rightarrow> int \<Rightarrow> pyexn + Device option" where
  "resolve_device_by_id w i =
     bind_exn (load_devices w) (\<lambda>devices.
     bind_exn (py_iter devices) (\<lambda>ds. resolve_device_by_id_loop ds i))"

text \<open>
  \<open>CreateDevice.mutate\<close>. \<open>[d["id"] for d in devices]\<close> stops at the first record
  without an \<open>id\<close>. \<open>max(ids) + 1\<close> is an integer exactly when every identifier is one:
  within the values modelled, any other identifier makes a comparison of \<open>max\<close> or the
  addition raise \<open>TypeError\<close>.
\<close>

fun ids_of :: "yaml list \<Rightarrow> pyexn + yaml list" where
  "ids_of [] = Inr []"
| "ids_of (d # ds) =
     bind_exn (py_getitem d ''id'') (\<lambda>v.
     bind_exn (ids_of ds) (\<lambda>vs. Inr (v # vs)))"

fun int_values :: "yaml list \<Rightarrow> int list option" where
  "int_values [] = Some []"
| "int_values (YInt i # vs) = map_option (\<lambda>js. i # js) (int_values vs)"
| "int_values (v # vs) = None"

definition max_plus_one :: "yaml list \<Rightarrow> pyexn + int" where
  "max_plus_one vs =
     (case int_values vs of
        None \<Rightarrow> Inl TypeError
      | Some [] \<Rightarrow> Inl ValueError
      | Some (i # js) \<Rightarrow> Inr (fold max js i + 1))"

definition next_id :: "yaml \<Rightarrow> pyexn + int" where
  "next_id devices =
     (if truthy devices then
        bind_exn (py_iter devices) (\<lambda>ds.
        bind_exn (ids_of ds) max_plus_one)
      else Inr 1)"

definition new_device_dict :: "int \<Rightarrow> DeviceInput \<Rightarrow> yaml" where
  "new_device_dict new_id device_data =
     YDict [(''id'', YInt new_id),
            (''name'', YStr (name device_data)),
            (''host'', YStr (host device_data)),
            (''username'', YStr (username device_data)),
            (''password'', YStr (password device_data)),
            (''secret'', YStr (secret device_data)),
            (''device_type'', YStr (device_type device_data))]"

text \<open>The argument \<open>["hostname " + device["name"]]\<close> of the configuration push.\<close>

definition hostname_commands :: "yaml \<Rightarrow> pyexn + string list" where
  "hostname_commands device =
     bind_exn (py_getitem device ''name'') (\<lambda>n.
     bind_exn (py_concat ''hostname '' n) (\<lambda>c. Inr [c]))"

text \<open>Saving the inventory, then the push; shared by create and update.\<close>

definition save_then_configure ::
  "env \<Rightarrow> yaml \<Rightarrow> yaml \<Rightarrow> world \<Rightarrow> (pyexn + yaml) \<times> world" where
  "save_then_configure E devices device w =
     (let w1 = save_devices (YDict [(''devices'', devices)]) w in
      case hostname_commands device of
        Inl e \<Rightarrow> (Inl e, w1)
      | Inr cmds \<Rightarrow>
         (case configure_device E device cmds w1 of
            (Inl e, w2) \<Rightarrow> (Inl e, w2)
          | (Inr output, w2) \<Rightarrow> (Inr device, w2)))"

definition CreateDevice_mutate ::
  "env \<Rightarrow> DeviceInput \<Rightarrow> world \<Rightarrow> (pyexn + yaml) \<times> world" where
  "CreateDevice_mutate E device_data w =
     (case load_devices w of
        Inl e \<Rightarrow> (Inl e, w)
      | Inr devices \<Rightarrow>
         (case next_id devices of
            Inl e \<Rightarrow> (Inl e, w)
          | Inr new_id \<Rightarrow>
             (let new_device = new_device_dict new_id device_data in
              case py_append devices new_device of
                Inl e \<Rightarrow> (Inl e, w)
              | Inr devices' \<Rightarrow> save_then_configure E devices' new_device w)))"

text \<open>
  \<open>UpdateDevice.mutate\<close>. The six assignments change the record inside the loaded
  list, so the list that is saved holds the changed record at the same place: \<open>seen\<close> are
  the records already passed over.
\<close>

definition update_fields :: "yaml \<Rightarrow> DeviceInput \<Rightarrow> pyexn + yaml" where
  "update_fields dev device_data =
     bind_exn (py_setitem dev ''name'' (YStr (name device_data))) (\<lambda>d1.
     bind_exn (py_setitem d1 ''host'' (YStr (host device_data))) (\<lambda>d2.
     bind_exn (py_setitem d2 ''username'' (YStr (username device_data))) (\<lambda>d3.
     bind_exn (py_setitem d3 ''password'' (YStr (password device_data))) (\<lambda>d4.
     bind_exn (py_setitem d4 ''secret'' (YStr (secret device_data))) (\<lambda>d5.
     py_setitem d5 ''device_type'' (YStr (device_type device_data)))))))"

fun UpdateDevice_loop ::
  "env \<Rightarrow> int \<Rightarrow> DeviceInput \<Rightarrow> yaml list \<Rightarrow> yaml list \<Rightarrow> world \<Rightarrow> (pyexn + yaml option) \<times> world" where
  "UpdateDevice_loop E i device_data seen [] w = (Inr None, w)"
| "UpdateDevice_loop E i device_data seen (dev # rest) w =
     (case py_getitem dev ''id'' of
        Inl e \<Rightarrow> (Inl e, w)
      | Inr v \<Rightarrow>
          if v = YInt i then
            (case update_fields dev device_data of
               Inl e \<Rightarrow> (Inl e, w)
             | Inr dev' \<Rightarrow>
                (case save_then_configure E (YList (seen @ dev' # rest)) dev' w of
                   (Inl e, w') \<Rightarrow> (Inl e, w')
                 | (Inr d, w') \<Rightarrow> (Inr (Some d), w')))
          else UpdateDevice_loop E i device_data (seen @ [dev]) rest w)"

definition UpdateDevice_mutate ::
  "env \<Rightarrow> int \<Rightarrow> DeviceInput \<Rightarrow> world \<Rightarrow> (pyexn + yaml option) \<times> world" where
  "UpdateDevice_mutate E i device_data w =
     (case load_devices w of
        Inl e \<Rightarrow> (Inl e, w)
      | Inr devices \<Rightarrow>
         (case py_iter devices of
            Inl e \<Rightarrow> (Inl e, w)
          | Inr ds \<Rightarrow> UpdateDevice_loop E i device_data [] ds w))"



section \<open>app.py\<close>

subsection \<open>Inventory, sessions and responses\<close>

definition app_load_devices :: "world \<Rightarrow> pyexn + yaml" where
  "app_load_devices w =
     (case devices_file w of
        Absent \<Rightarrow> Inr (YList [])
      | Malformed \<Rightarrow> Inr (YList [])
      | Document data \<Rightarrow> py_getitem data ''devices'')"

text \<open>
  A response is its HTTP status and its JSON body. The \<open>timestamp\<close> entry of the
  bodies, which reads the wall clock, is left out.
\<close>

datatype json =
    JBool bool
  | JStr string
  | JValue yaml
  | JList "json list"
  | JDict "(string \<times> json) list"

datatype response = Response nat json

fun status_code :: "response \<Rightarrow> nat" where
  "status_code (Response n b) = n"

text \<open>The Flask session is a mapping; \<open>login\<close> stores \<open>username\<close> and \<open>role\<close> in it.\<close>

type_synonym session = "(string \<times> yaml) list"

definition USERS :: "(string \<times> (string \<times> string)) list" where
  "USERS = [(''admin'', (''admin123'', ''admin'')), (''user'', (''user123'', ''user''))]"

definition login :: "yaml \<Rightarrow> session \<Rightarrow> pyexn + response \<times> session" where
  "login data session =
     bind_exn (py_get data ''username'' YNull) (\<lambda>u.
     bind_exn (py_get data ''password'' YNull) (\<lambda>p.
       case u of
         YList xs \<Rightarrow> Inl TypeError
       | YDict kvs \<Rightarrow> Inl TypeError
       | YStr un \<Rightarrow>
          (case map_of USERS un of
             Some (pw, role) \<Rightarrow>
               if YStr pw = p then
                 Inr (Response 200 (JDict [(''success'', JBool True), (''role'', JStr role), (''username'', JStr un)]),
                      AList.update ''role'' (YStr role) (AList.update ''username'' (YStr un) session))
               else
                 Inr (Response 200 (JDict [(''success'', JBool False),
                        (''message'', JStr (''Usuario o contrase'' @ [CHR 0xF1] @ ''a incorrectos''))]), session)
           | None \<Rightarrow>
               Inr (Response 200 (JDict [(''success'', JBool False),
                      (''message'', JStr (''Usuario o contrase'' @ [CHR 0xF1] @ ''a incorrectos''))]), session))
       | v \<Rightarrow>
          Inr (Response 200 (JDict [(''success'', JBool False),
                 (''message'', JStr (''Usuario o contrase'' @ [CHR 0xF1] @ ''a incorrectos''))]), session)))"

definition logout :: "session \<Rightarrow> response \<times> session" where
  "logout session = (Response 200 (JDict [(''success'', JBool True)]), [])"

text \<open>
  The guard every monitoring, maintenance and security route starts with:
  \<open>'username' not in session or session['role'] != 'admin'\<close>.
\<close>

definition access_denied :: "session \<Rightarrow> pyexn + bool" where
  "access_denied session =
     (if map_of session ''username'' = None then Inr True
      else bind_exn (py_getitem (YDict session) ''role'') (\<lambda>r. Inr (r \<noteq> YStr ''admin'')))"

definition denied_response :: response where
  "denied_response = Response 403 (JDict [(''error'', JStr ''Acceso denegado'')])"

definition not_found_response :: response where
  "not_found_response = Response 404 (JDict [(''error'', JStr ''Dispositivo no encontrado'')])"

definition error_response :: "nat \<Rightarrow> string \<Rightarrow> response" where
  "error_response code msg = Response code (JDict [(''error'', JStr msg)])"

text \<open>\<open>next((d for d in devices if d['name'] == device_name), None)\<close>.\<close>

fun find_by_name :: "yaml list \<Rightarrow> yaml \<Rightarrow> pyexn + yaml option" where
  "find_by_name [] device_name = Inr None"
| "find_by_name (d # ds) device_name =
     bind_exn (py_getitem d ''name'') (\<lambda>n.
       if n = device_name then Inr (Some d) else find_by_name ds device_name)"

text \<open>
  What the eleven admin routes share, before anything is sent to a device: the guard,
  the \<open>device_name\<close> of the request, the inventory and the search in it. The request
  is given by the value \<open>data\<close> that \<open>request.get_json()\<close> returns. (The further
  \<open>data.get\<close> calls of some routes stand between the first \<open>data.get\<close> and the load in
  the source; once the first has succeeded they cannot raise, so the model reads them
  afterwards.)
\<close>

datatype prelude = Rejected response | Resolved yaml yaml

definition admin_prelude :: "session \<Rightarrow> yaml \<Rightarrow> world \<Rightarrow> pyexn + prelude" where
  "admin_prelude session data w =
     bind_exn (access_denied session) (\<lambda>denied.
       if denied then Inr (Rejected denied_response)
       else
         bind_exn (py_get data ''device_name'' YNull) (\<lambda>device_name.
         bind_exn (app_load_devices w) (\<lambda>devices.
         bind_exn (py_iter devices) (\<lambda>ds.
         bind_exn (find_by_name ds device_name) (\<lambda>found.
           case found of
             None \<Rightarrow> Inr (Rejected not_found_response)
           | Some device \<Rightarrow>
               if truthy device then Inr (Resolved device_name device)
               else Inr (Rejected not_found_response))))))"

subsection \<open>Connectivity\<close>

definition connect_args :: "yaml \<Rightarrow> pyexn + (string \<times> yaml) list" where
  "connect_args device_info =
     bind_exn (py_getitem device_info ''device_type'') (\<lambda>dt.
     bind_exn (py_getitem device_info ''host'') (\<lambda>h.
     bind_exn (py_getitem device_info ''username'') (\<lambda>un.
     bind_exn (py_getitem device_info ''password'') (\<lambda>pw.
     bind_exn (py_get device_info ''secret'' (YStr [])) (\<lambda>sec.
       Inr [(''device_type'', dt), (''host'', h), (''username'', un), (''password'', pw),
            (''secret'', sec), (''timeout'', YInt 10)])))))"

definition connect_error_text :: "env \<Rightarrow> pyexn \<Rightarrow> string" where
  "connect_error_text E e =
     (if e = NetmikoTimeoutException then ''Timeout - No se pudo conectar al dispositivo''
      else if e = NetmikoAuthenticationException then ''Error de autenticaci'' @ [CHR 0xF3] @ ''n''
      else ''Error de conexi'' @ [CHR 0xF3] @ ''n: '' @ str_exn E e)"

text \<open>\<open>connect_to_device\<close>: the error text, or \<open>None\<close> with the session open.\<close>

definition connect_to_device :: "env \<Rightarrow> yaml \<Rightarrow> world \<Rightarrow> string option \<times> world" where
  "connect_to_device E device_info w =
     (case connect_args device_info of
        Inl e \<Rightarrow> (Some (connect_error_text E e), w)
      | Inr args \<Rightarrow>
         (case nm_connect E (trace w) args of
            Some e \<Rightarrow> (Some (connect_error_text E e), log_event (EvConnect args) w)
          | None \<Rightarrow> (None, log_event (EvConnect args) w)))"

definition send_command :: "env \<Rightarrow> string \<Rightarrow> world \<Rightarrow> (pyexn + string) \<times> world" where
  "send_command E command w = (nm_send_command E (trace w) command, log_event (EvSendCommand command) w)"

definition send_config_set :: "env \<Rightarrow> yaml \<Rightarrow> world \<Rightarrow> (pyexn + string) \<times> world" where
  "send_config_set E commands w = (nm_send_config_set E (trace w) commands, log_event (EvSendConfigSet commands) w)"

definition enable :: "env \<Rightarrow> world \<Rightarrow> pyexn option \<times> world" where
  "enable E w = (nm_enable E (trace w), log_event EvEnable w)"

definition disconnect :: "world \<Rightarrow> world" where
  "disconnect w = log_event EvDisconnect w"

record ping_result =
  p_status :: string
  p_message :: string
  p_output :: string
  p_response_time :: "rat option"

definition ping_command :: "env \<Rightarrow> yaml \<Rightarrow> yaml list" where
  "ping_command E h =
     (if is_windows E then [YStr ''ping'', YStr ''-n'', YStr ''4'', h]
      else [YStr ''ping'', YStr ''-c'', YStr ''4'', h])"

definition ping_device :: "env \<Rightarrow> yaml \<Rightarrow> world \<Rightarrow> ping_result \<times> world" where
  "ping_device E h w =
     (let cmd = ping_command E h
      in (case subprocess_run E (trace w) cmd of
            Completed returncode stdout stderr \<Rightarrow>
              if returncode = 0 then
                \<lparr>p_status = ''success'', p_message = ''Dispositivo alcanzable'',
                 p_output = stdout, p_response_time = extract_response_time stdout\<rparr>
              else
                \<lparr>p_status = ''error'', p_message = ''Dispositivo no alcanzable'',
                 p_output = stdout @ stderr, p_response_time = None\<rparr>
          | TimeoutExpired partial \<Rightarrow>
              \<lparr>p_status = ''timeout'', p_message = ''Tiempo de espera agotado'',
               p_output = ''El ping excedi'' @ [CHR 0xF3] @ '' el tiempo l'' @ [CHR 0xED] @ ''mite de 10 segundos'',
               p_response_time = None\<rparr>
          | RunFailed e \<Rightarrow>
              \<lparr>p_status = ''error'', p_message = ''Error al ejecutar ping: '' @ str_exn E e,
               p_output = [], p_response_time = None\<rparr>,
          log_event (EvPing cmd) w))"

subsection \<open>The admin routes\<close>

text \<open>
  \<open>data.get(k, default)\<close> where the prelude has already called \<open>data.get\<close>: the request
  body is a mapping there, and the call cannot raise.
\<close>

definition data_get :: "yaml \<Rightarrow> string \<Rightarrow> yaml \<Rightarrow> yaml" where
  "data_get data k dflt = (case py_get data k dflt of Inr v \<Rightarrow> v | Inl e \<Rightarrow> dflt)"

text \<open>
  Every admin route is the shared prelude followed by its own body. A body gets the
  request's \<open>device_name\<close> and the device found; the bodies catch what the device
  raises and never raise themselves.
\<close>

definition admin_route ::
  "session \<Rightarrow> yaml \<Rightarrow> world \<Rightarrow> (yaml \<Rightarrow> yaml \<Rightarrow> world \<Rightarrow> response \<times> world) \<Rightarrow> (pyexn + response) \<times> world" where
  "admin_route session data w body =
     (case admin_prelude session data w of
        Inl e \<Rightarrow> (Inl e, w)
      | Inr (Rejected r) \<Rightarrow> (Inr r, w)
      | Inr (Resolved device_name device) \<Rightarrow>
          (case body device_name device w of (r, w') \<Rightarrow> (Inr r, w')))"

text \<open>
  The four monitoring routes differ in the command sent, the key of the answer and the
  text of the error only.
\<close>

definition monitoring_body ::
  "env \<Rightarrow> string \<Rightarrow> string \<Rightarrow> string \<Rightarrow> yaml \<Rightarrow> yaml \<Rightarrow> world \<Rightarrow> response \<times> world" where
  "monitoring_body E command key err device_name device w =
     (case connect_to_device E device w of
        (Some error, w1) \<Rightarrow> (error_response 500 error, w1)
      | (None, w1) \<Rightarrow>
         (case send_command E command w1 of
            (Inl e, w2) \<Rightarrow> (error_response 500 (err @ str_exn E e), disconnect w2)
          | (Inr output, w2) \<Rightarrow>
             (Response 200 (JDict [(''success'', JBool True), (''device'', JValue device_name),
                                   (key, JStr output)]),
              disconnect w2)))"

definition get_device_config :: "env \<Rightarrow> session \<Rightarrow> yaml \<Rightarrow> world \<Rightarrow> (pyexn + response) \<times> world" where
  "get_device_config E session data w =
     admin_route session data w
       (monitoring_body E ''show running-config'' ''config''
          (''Error al obtener configuraci'' @ [CHR 0xF3] @ ''n: ''))"

definition get_interfaces :: "env \<Rightarrow> session \<Rightarrow> yaml \<Rightarrow> world \<Rightarrow> (pyexn + response) \<times> world" where
  "get_interfaces E session data w =
     admin_route session data w
       (monitoring_body E ''show ip interface brief'' ''interfaces'' ''Error al obtener interfaces: '')"

definition get_cdp_neighbors :: "env \<Rightarrow> session \<Rightarrow> yaml \<Rightarrow> world \<Rightarrow> (pyexn + response) \<times> world" where
  "get_cdp_neighbors E session data w =
     admin_route session data w
       (monitoring_body E ''show cdp neighbors detail'' ''cdp_neighbors'' ''Error al obtener vecinos CDP: '')"

definition get_interface_traffic :: "env \<Rightarrow> session \<Rightarrow> yaml \<Rightarrow> world \<Rightarrow> (pyexn + response) \<times> world" where
  "get_interface_traffic E session data w =
     admin_route session data w
       (monitoring_body E ''show interfaces'' ''traffic_info''
          (''Error al obtener tr'' @ [CHR 0xE1] @ ''fico: ''))"

definition simulation_steps :: "string list" where
  "simulation_steps =
     [''Verificando versi'' @ [CHR 0xF3] @ ''n actual del sistema...'',
      ''Descargando archivo de parche...'',
      ''Verificando integridad del archivo...'',
      ''Creando respaldo de configuraci'' @ [CHR 0xF3] @ ''n...'',
      ''Aplicando parche de seguridad...'',
      ''Reiniciando servicios...'',
      ''Verificando funcionamiento...'',
      ''Parche aplicado exitosamente'']"

definition simulate_patch :: "session \<Rightarrow> yaml \<Rightarrow> world \<Rightarrow> (pyexn + response) \<times> world" where
  "simulate_patch session data w =
     admin_route session data w (\<lambda>device_name device w'.
       (Response 200 (JDict [(''success'', JBool True), (''device'', JValue device_name),
                             (''simulation_steps'', JList (map JStr simulation_steps)),
                             (''status'', JStr ''completed'')]),
        w'))"

text \<open>
  \<open>apply_yaml_template\<close>. One command of the template: the body of the inner \<open>try\<close>
  (a command that is not a string has no \<open>startswith\<close>), and the entry appended for it
  either way.
\<close>

record command_result =
  r_command :: yaml
  r_output :: string
  r_status :: string

definition run_template_command :: "env \<Rightarrow> yaml \<Rightarrow> world \<Rightarrow> (pyexn + string) \<times> world" where
  "run_template_command E command w =
     (case command of
        YStr c \<Rightarrow>
          if startswith c ''configure'' then
            (case enable E w of
               (Some e, w1) \<Rightarrow> (Inl e, w1)
             | (None, w1) \<Rightarrow> send_command E c w1)
          else send_command E c w
      | v \<Rightarrow> (Inl AttributeError, w))"

definition template_entry :: "env \<Rightarrow> yaml \<Rightarrow> pyexn + string \<Rightarrow> command_result" where
  "template_entry E command r =
     (case r of
        Inr output \<Rightarrow> \<lparr>r_command = command, r_output = output, r_status = ''success''\<rparr>
      | Inl cmd_error \<Rightarrow> \<lparr>r_command = command, r_output = str_exn E cmd_error, r_status = ''error''\<rparr>)"

fun apply_template_loop ::
  "env \<Rightarrow> yaml list \<Rightarrow> command_result list \<Rightarrow> world \<Rightarrow> command_result list \<times> world" where
  "apply_template_loop E [] results w = (results, w)"
| "apply_template_loop E (command # commands) results w =
     (case run_template_command E command w of
        (r, w') \<Rightarrow> apply_template_loop E commands (results @ [template_entry E command r]) w')"

text \<open>\<open>'commands' in v\<close>.\<close>

fun py_contains :: "yaml \<Rightarrow> string \<Rightarrow> pyexn + bool" where
  "py_contains (YDict kvs) k = Inr (map_of kvs k \<noteq> None)"
| "py_contains (YList xs) k = Inr (YStr k \<in> set xs)"
| "py_contains (YStr s) k = Inr (contains s k)"
| "py_contains YNull k = Inl TypeError"
| "py_contains (YInt i) k = Inl TypeError"

definition command_result_json :: "command_result \<Rightarrow> json" where
  "command_result_json r =
     JDict [(''command'', JValue (r_command r)), (''output'', JStr (r_output r)),
            (''status'', JStr (r_status r))]"

definition apply_template_try ::
  "env \<Rightarrow> yaml \<Rightarrow> yaml \<Rightarrow> yaml \<Rightarrow> world \<Rightarrow> (pyexn + response) \<times> world" where
  "apply_template_try E template_content device_name device w =
     (case yaml_safe_load E template_content of
        Inl e \<Rightarrow> (Inl e, w)
      | Inr yaml_data \<Rightarrow>
         (case py_contains yaml_data ''commands'' of
            Inl e \<Rightarrow> (Inl e, w)
          | Inr False \<Rightarrow>
              (Inr (error_response 400 (''Template debe contener una secci'' @ [CHR 0xF3] @ ''n '' @ [CHR 0x22] @ ''commands'' @ [CHR 0x22])), w)
          | Inr True \<Rightarrow>
             (case connect_to_device E device w of
                (Some error, w1) \<Rightarrow> (Inr (error_response 500 error), w1)
              | (None, w1) \<Rightarrow>
                 (case bind_exn (py_getitem yaml_data ''commands'') py_iter of
                    Inl e \<Rightarrow> (Inl e, w1)
                  | Inr commands \<Rightarrow>
                     (case apply_template_loop E commands [] w1 of
                        (results, w2) \<Rightarrow>
                          (Inr (Response 200 (JDict [(''success'', JBool True),
                                  (''device'', JValue device_name),
                                  (''results'', JList (map command_result_json results))])),
                           disconnect w2))))))"

definition apply_yaml_template :: "env \<Rightarrow> session \<Rightarrow> yaml \<Rightarrow> world \<Rightarrow> (pyexn + response) \<times> world" where
  "apply_yaml_template E session data w =
     admin_route session data w (\<lambda>device_name device w'.
       case apply_template_try E (data_get data ''template_content'' YNull) device_name device w' of
         (Inr r, w2) \<Rightarrow> (r, w2)
       | (Inl e, w2) \<Rightarrow>
           (if e = YAMLError then error_response 400 (''Error en formato YAML: '' @ str_exn E e)
            else error_response 500 (''Error al aplicar template: '' @ str_exn E e),
            w2))"

text \<open>\<open>change_device_password\<close>.\<close>

definition change_password_try ::
  "env \<Rightarrow> yaml \<Rightarrow> yaml \<Rightarrow> world \<Rightarrow> (pyexn + string \<times> string) \<times> world" where
  "change_password_try E username_to_change new_password w =
     (case enable E w of
        (Some e, w1) \<Rightarrow> (Inl e, w1)
      | (None, w1) \<Rightarrow>
         (case send_config_set E
                 (YList [YStr ''configure terminal'',
                         YStr (''username '' @ str_value E username_to_change @ '' password '' @ str_value E new_password),
                         YStr ''exit'']) w1 of
            (Inl e, w2) \<Rightarrow> (Inl e, w2)
          | (Inr output, w2) \<Rightarrow>
             (case send_command E ''write memory'' w2 of
                (Inl e, w3) \<Rightarrow> (Inl e, w3)
              | (Inr save_output, w3) \<Rightarrow> (Inr (output, save_output), w3))))"

definition change_device_password :: "env \<Rightarrow> session \<Rightarrow> yaml \<Rightarrow> world \<Rightarrow> (pyexn + response) \<times> world" where
  "change_device_password E session data w =
     admin_route session data w (\<lambda>device_name device w'.
       case connect_to_device E device w' of
         (Some error, w1) \<Rightarrow> (error_response 500 error, w1)
       | (None, w1) \<Rightarrow>
          (case change_password_try E (data_get data ''username_to_change'' (YStr ''admin''))
                  (data_get data ''new_password'' YNull) w1 of
             (Inl e, w2) \<Rightarrow>
               (error_response 500 (''Error al cambiar contrase'' @ [CHR 0xF1] @ ''a: '' @ str_exn E e),
                disconnect w2)
           | (Inr (output, save_output), w2) \<Rightarrow>
               (Response 200 (JDict [(''success'', JBool True), (''device'', JValue device_name),
                  (''message'', JStr (''Contrase'' @ [CHR 0xF1] @ ''a cambiada exitosamente para usuario ''
                                      @ str_value E (data_get data ''username_to_change'' (YStr ''admin'')))),
                  (''output'', JStr output), (''save_output'', JStr save_output)]),
                disconnect w2)))"

text \<open>
  \<open>maintenance_backup\<close>: everything after the search is inside one \<open>try\<close>, whose
  \<open>except\<close> does not close the session.
\<close>

definition backup_try :: "env \<Rightarrow> yaml \<Rightarrow> yaml \<Rightarrow> world \<Rightarrow> (pyexn + response) \<times> world" where
  "backup_try E device_name device w =
     (case connect_to_device E device w of
        (Some error, w1) \<Rightarrow> (Inr (error_response 500 error), w1)
      | (None, w1) \<Rightarrow>
         (case enable E w1 of
            (Some e, w2) \<Rightarrow> (Inl e, w2)
          | (None, w2) \<Rightarrow>
             (case send_command E ''show running-config'' w2 of
                (Inl e, w3) \<Rightarrow> (Inl e, w3)
              | (Inr output, w3) \<Rightarrow>
                 (let w4 = disconnect w3;
                      filename = ''/backups_routers/backup_'' @ str_value E device_name @ ''_''
                                 @ now_compact E @ ''.txt''
                  in case open_backup E (trace w4) filename of
                       Some e \<Rightarrow> (Inl e, log_event (EvWriteBackup filename output) w4)
                     | None \<Rightarrow>
                         (Inr (Response 200 (JDict [(''success'', JBool True),
                                 (''message'', JStr (''Backup realizado correctamente y guardado como '' @ filename))])),
                          log_event (EvWriteBackup filename output) w4)))))"

definition maintenance_backup :: "env \<Rightarrow> session \<Rightarrow> yaml \<Rightarrow> world \<Rightarrow> (pyexn + response) \<times> world" where
  "maintenance_backup E session data w =
     admin_route session data w (\<lambda>device_name device w'.
       case backup_try E device_name device w' of
         (Inr r, w2) \<Rightarrow> (r, w2)
       | (Inl e, w2) \<Rightarrow> (error_response 500 (''Error al realizar backup: '' @ str_exn E e), w2))"

text \<open>
  \<open>manage_users\<close>: an action other than \<open>add\<close> and \<open>remove\<close> returns from inside the
  \<open>try\<close>, with the session left open.
\<close>

definition manage_users_try ::
  "env \<Rightarrow> yaml \<Rightarrow> yaml \<Rightarrow> yaml \<Rightarrow> world \<Rightarrow> (pyexn + response) \<times> world" where
  "manage_users_try E user_action uname pword w =
     (case enable E w of
        (Some e, w1) \<Rightarrow> (Inl e, w1)
      | (None, w1) \<Rightarrow>
          if user_action = YStr ''add'' \<or> user_action = YStr ''remove'' then
            (case send_config_set E
                    (if user_action = YStr ''add'' then
                       YList [YStr ''configure terminal'',
                              YStr (''username '' @ str_value E uname @ '' privilege 15 password '' @ str_value E pword),
                              YStr ''exit'']
                     else
                       YList [YStr ''configure terminal'',
                              YStr (''no username '' @ str_value E uname),
                              YStr ''exit'']) w1 of
               (Inl e, w2) \<Rightarrow> (Inl e, w2)
             | (Inr output, w2) \<Rightarrow>
                 (Inr (Response 200 (JDict [(''success'', JBool True),
                         (''message'', JStr (''Usuario '' @ str_value E uname @
                             (if user_action = YStr ''add'' then '' agregado correctamente''
                              else '' eliminado correctamente''))),
                         (''output'', JStr output)])),
                  disconnect w2))
          else (Inr (error_response 400 (''Acci'' @ [CHR 0xF3] @ ''n no v'' @ [CHR 0xE1] @ ''lida'')), w1))"

definition manage_users :: "env \<Rightarrow> session \<Rightarrow> yaml \<Rightarrow> world \<Rightarrow> (pyexn + response) \<times> world" where
  "manage_users E session data w =
     admin_route session data w (\<lambda>device_name device w'.
       case connect_to_device E device w' of
         (Some error, w1) \<Rightarrow> (error_response 500 error, w1)
       | (None, w1) \<Rightarrow>
          (case manage_users_try E (data_get data ''action'' YNull) (data_get data ''username'' YNull)
                  (data_get data ''password'' (YStr [])) w1 of
             (Inr r, w2) \<Rightarrow> (r, w2)
           | (Inl e, w2) \<Rightarrow>
               (error_response 500 (''Error al gestionar usuarios: '' @ str_exn E e), disconnect w2)))"

text \<open>\<open>configure_acls\<close>.\<close>

definition configure_acls :: "env \<Rightarrow> session \<Rightarrow> yaml \<Rightarrow> world \<Rightarrow> (pyexn + response) \<times> world" where
  "configure_acls E session data w =
     admin_route session data w (\<lambda>device_name device w'.
       case connect_to_device E device w' of
         (Some error, w1) \<Rightarrow> (error_response 500 error, w1)
       | (None, w1) \<Rightarrow>
          (case enable E w1 of
             (Some e, w2) \<Rightarrow>
               (error_response 500 (''Error al configurar ACLs: '' @ str_exn E e), disconnect w2)
           | (None, w2) \<Rightarrow>
              (case send_config_set E (data_get data ''acl_commands'' (YList [])) w2 of
                 (Inl e, w3) \<Rightarrow>
                   (error_response 500 (''Error al configurar ACLs: '' @ str_exn E e), disconnect w3)
               | (Inr output, w3) \<Rightarrow>
                   (Response 200 (JDict [(''success'', JBool True),
                      (''message'', JStr ''ACLs configuradas correctamente''),
                      (''output'', JStr output)]),
                    disconnect w3))))"

text \<open>\<open>security_audit\<close>: three fixed commands, their answers collected under the command.\<close>

fun audit_loop ::
  "env \<Rightarrow> string list \<Rightarrow> (string \<times> json) list \<Rightarrow> world \<Rightarrow> (pyexn + (string \<times> json) list) \<times> world" where
  "audit_loop E [] audit_results w = (Inr audit_results, w)"
| "audit_loop E (cmd # cmds) audit_results w =
     (case send_command E cmd w of
        (Inl e, w') \<Rightarrow> (Inl e, w')
      | (Inr output, w') \<Rightarrow> audit_loop E cmds (audit_results @ [(cmd, JStr output)]) w')"

definition security_audit_try :: "env \<Rightarrow> world \<Rightarrow> (pyexn + (string \<times> json) list) \<times> world" where
  "security_audit_try E w =
     (case enable E w of
        (Some e, w1) \<Rightarrow> (Inl e, w1)
      | (None, w1) \<Rightarrow> audit_loop E [''show running-config'', ''show users'', ''show privilege''] [] w1)"

definition security_audit :: "env \<Rightarrow> session \<Rightarrow> yaml \<Rightarrow> world \<Rightarrow> (pyexn + response) \<times> world" where
  "security_audit E session data w =
     admin_route session data w (\<lambda>device_name device w'.
       case connect_to_device E device w' of
         (Some error, w1) \<Rightarrow> (error_response 500 error, w1)
       | (None, w1) \<Rightarrow>
          (case security_audit_try E w1 of
             (Inl e, w2) \<Rightarrow>
               (error_response 500 (''Error al realizar auditor'' @ [CHR 0xED] @ ''a: '' @ str_exn E e),
                disconnect w2)
           | (Inr audit_results, w2) \<Rightarrow>
               (Response 200 (JDict [(''success'', JBool True),
                  (''message'', JStr (''Auditor'' @ [CHR 0xED] @ ''a de seguridad realizada'')),
                  (''results'', JDict audit_results)]),
                disconnect w2)))"

text \<open>The URL map restricted to the admin routes.\<close>

datatype admin_url =
    MonitoringConfig
  | MonitoringInterfaces
  | MonitoringCdp
  | MonitoringTraffic
  | MaintenancePatchSimulation
  | MaintenanceApplyTemplate
  | MaintenanceBackup
  | SecurityChangePassword
  | SecurityManageUsers
  | SecurityConfigureAcls
  | SecurityAudit

fun dispatch :: "env \<Rightarrow> admin_url \<Rightarrow> session \<Rightarrow> yaml \<Rightarrow> world \<Rightarrow> (pyexn + response) \<times> world" where
  "dispatch E MonitoringConfig = get_device_config E"
| "dispatch E MonitoringInterfaces = get_interfaces E"
| "dispatch E MonitoringCdp = get_cdp_neighbors E"
| "dispatch E MonitoringTraffic = get_interface_traffic E"
| "dispatch E MaintenancePatchSimulation = simulate_patch"
| "dispatch E MaintenanceApplyTemplate = apply_yaml_template E"
| "dispatch E MaintenanceBackup = maintenance_backup E"
| "dispatch E SecurityChangePassword = change_device_password E"
| "dispatch E SecurityManageUsers = manage_users E"
| "dispatch E SecurityConfigureAcls = configure_acls E"
| "dispatch E SecurityAudit = security_audit E"

section \<open>Vocabulary of the properties and concrete inputs\<close>

text \<open>The events that reach a device over a Netmiko session.\<close>

fun is_transport :: "event \<Rightarrow> bool" where
  "is_transport (EvConnect args) = True"
| "is_transport EvEnable = True"
| "is_transport (EvSendCommand c) = True"
| "is_transport (EvSendConfigSet cs) = True"
| "is_transport EvSaveConfig = True"
| "is_transport EvDisconnect = True"
| "is_transport ev = False"

text \<open>The records a mutation iterates over: what is loaded, when it loads and is iterable.\<close>

definition stored_devices :: "world \<Rightarrow> yaml list" where
  "stored_devices w =
     (case load_devices w of
        Inl e \<Rightarrow> []
      | Inr devices \<Rightarrow> (case py_iter devices of Inl e \<Rightarrow> [] | Inr ds \<Rightarrow> ds))"

text \<open>The world before the \<open>k\<close>-th command of a template is run.\<close>

definition world_before :: "env \<Rightarrow> yaml list \<Rightarrow> nat \<Rightarrow> world \<Rightarrow> world" where
  "world_before E commands k w = snd (apply_template_loop E (take k commands) [] w)"

text \<open>
  Two environments: one whose devices cannot be reached (opening a session times out),
  one whose devices answer, except that the command \<open>bad\<close> is refused.
\<close>

definition str_value_example :: "yaml \<Rightarrow> string" where
  "str_value_example v = (case v of YStr s \<Rightarrow> s | YNull \<Rightarrow> ''None'' | u \<Rightarrow> ''?'')"

definition str_exn_example :: "pyexn \<Rightarrow> string" where
  "str_exn_example e = (case e of OtherException m \<Rightarrow> m | KeyError k \<Rightarrow> [CHR 0x27] @ k @ [CHR 0x27] | u \<Rightarrow> [])"

definition unreachable_env :: env where
  "unreachable_env =
     \<lparr>nm_connect = (\<lambda>t args. Some NetmikoTimeoutException),
      nm_enable = (\<lambda>t. None),
      nm_send_command = (\<lambda>t c. Inr ''ok''),
      nm_send_config_set = (\<lambda>t cs. Inr ''ok''),
      nm_save_config = (\<lambda>t. None),
      subprocess_run = (\<lambda>t cmd. TimeoutExpired ''PING 10.0.0.1''),
      is_windows = False,
      open_backup = (\<lambda>t f. None),
      now_compact = ''20240101120000'',
      yaml_safe_load = (\<lambda>v. Inl YAMLError),
      str_exn = str_exn_example,
      str_value = str_value_example\<rparr>"

definition answering_env :: env where
  "answering_env =
     \<lparr>nm_connect = (\<lambda>t args. None),
      nm_enable = (\<lambda>t. None),
      nm_send_command = (\<lambda>t c. if c = ''bad'' then Inl (OtherException ''Invalid input'') else Inr (''done: '' @ c)),
      nm_send_config_set = (\<lambda>t cs. Inr ''ok''),
      nm_save_config = (\<lambda>t. None),
      subprocess_run = (\<lambda>t cmd. Completed 0 ''64 bytes from 10.0.0.1: icmp_seq=1 ttl=64 time=23.4 ms'' []),
      is_windows = False,
      open_backup = (\<lambda>t f. None),
      now_compact = ''20240101120000'',
      yaml_safe_load = (\<lambda>v. Inr (YDict [(''commands'', YList [YStr ''show version'', YStr ''bad'', YStr ''show users''])])),
      str_exn = str_exn_example,
      str_value = str_value_example\<rparr>"

definition example_input :: DeviceInput where
  "example_input =
     \<lparr>name = ''r9'', host = ''10.0.0.9'', username = ''cisco'', password = ''pw'',
      secret = ''en'', device_type = ''cisco_ios''\<rparr>"

definition example_device :: "int \<Rightarrow> string \<Rightarrow> yaml" where
  "example_device i n =
     YDict [(''id'', YInt i), (''name'', YStr n), (''host'', YStr ''10.0.0.1''),
            (''username'', YStr ''cisco''), (''password'', YStr ''pw''), (''secret'', YStr ''en''),
            (''device_type'', YStr ''cisco_ios'')]"

definition legacy_device :: yaml where
  "legacy_device =
     YDict [(''id'', YInt 7), (''name'', YStr ''old''), (''ip'', YStr ''10.0.0.7''),
            (''username'', YStr ''cisco''), (''password'', YStr ''pw''),
            (''device_type'', YStr ''cisco_ios'')]"

definition example_world :: world where
  "example_world =
     \<lparr>devices_file = Document (YDict [(''devices'', YList [example_device 1 ''r1'', example_device 4 ''r4''])]),
      trace = []\<rparr>"

definition legacy_world :: world where
  "legacy_world =
     \<lparr>devices_file = Document (YDict [(''devices'', YList [example_device 1 ''r1'', legacy_device])]),
      trace = []\<rparr>"

definition malformed_world :: world where
  "malformed_world = \<lparr>devices_file = Malformed, trace = []\<rparr>"

definition user_session :: session where
  "user_session = [(''username'', YStr ''user''), (''role'', YStr ''user'')]"

definition admin_session :: session where
  "admin_session = [(''username'', YStr ''admin''), (''role'', YStr ''admin'')]"

definition failing_ping_env :: env where
  "failing_ping_env =
     answering_env\<lparr>subprocess_run := (\<lambda>t cmd. Completed 1 ''ping: sendmsg'' '': unreachable'')\<rparr>"

definition example_template :: "yaml list" where
  "example_template = [YStr ''show version'', YStr ''bad'', YStr ''show users'']"


section \<open>Properties\<close>

subsection \<open>The inventory mutations of the GraphQL surface\<close>

text \<open>
  What the configuration push can do to the world: it only appends transport events to
  the trace, and it returns a text whenever the device has a name.
\<close>

lemma log_event_simps [simp]:
  "devices_file (log_event ev w) = devices_file w"
  "trace (log_event ev w) = trace w @ [ev]"
  by (simp_all add: log_event_def)

lemma configure_device_session_effect:
  "\<exists>t. snd (configure_device_session E args cmds w) = w\<lparr>trace := trace w @ t\<rparr> \<and> list_all is_transport t"
  unfolding configure_device_session_def Let_def log_event_def
  by (auto split: option.splits sum.splits)

lemma configure_device_try_effect:
  "\<exists>t. snd (configure_device_try E d cmds w) = w\<lparr>trace := trace w @ t\<rparr> \<and> list_all is_transport t"
proof (cases "configure_device_args d")
  case (Inl e)
  then have "snd (configure_device_try E d cmds w) = w\<lparr>trace := trace w @ []\<rparr>"
    by (simp add: configure_device_try_def)
  then show ?thesis by (intro exI [of _ "[]"]) simp
next
  case (Inr args)
  then show ?thesis using configure_device_session_effect [of E args cmds w]
    by (simp add: configure_device_try_def)
qed

lemma configure_device_effect:
  "\<exists>t. snd (configure_device E d cmds w) = w\<lparr>trace := trace w @ t\<rparr> \<and> list_all is_transport t"
proof -
  have "snd (configure_device E d cmds w) = snd (configure_device_try E d cmds w)"
    by (auto simp: configure_device_def split: prod.splits sum.splits)
  then show ?thesis using configure_device_try_effect [of E d cmds w] by simp
qed

lemma configure_device_returns:
  assumes "py_getitem d ''name'' = Inr n"
  shows "\<exists>out. fst (configure_device E d cmds w) = Inr out"
  using assms by (auto simp: configure_device_def split: prod.splits sum.splits)

lemma save_then_configure_result:
  assumes "py_getitem d ''name'' = Inr (YStr n)"
  shows "\<exists>t. save_then_configure E devices d w =
            (Inr d, \<lparr>devices_file = Document (YDict [(''devices'', devices)]),
                     trace = trace w @ EvSave (YDict [(''devices'', devices)]) # t\<rparr>)
          \<and> list_all is_transport t"
proof -
  let ?doc = "YDict [(''devices'', devices)]"
  let ?w1 = "save_devices ?doc w"
  have cmds: "hostname_commands d = Inr [''hostname '' @ n]"
    using assms by (simp add: hostname_commands_def bind_exn_def)
  obtain out where out: "fst (configure_device E d [''hostname '' @ n] ?w1) = Inr out"
    using configure_device_returns [OF assms] by blast
  obtain t where t: "snd (configure_device E d [''hostname '' @ n] ?w1) = ?w1\<lparr>trace := trace ?w1 @ t\<rparr>"
    and tr: "list_all is_transport t"
    using configure_device_effect by blast
  have "save_then_configure E devices d w = (Inr d, ?w1\<lparr>trace := trace ?w1 @ t\<rparr>)"
    using cmds out t
    by (auto simp: save_then_configure_def Let_def split: prod.splits sum.splits)
  moreover have "?w1\<lparr>trace := trace ?w1 @ t\<rparr> =
      \<lparr>devices_file = Document ?doc, trace = trace w @ EvSave ?doc # t\<rparr>"
    by (simp add: save_devices_def log_event_def)
  ultimately show ?thesis using tr by auto
qed

text \<open>The next identifier over a list of records whose identifiers are integers.\<close>

lemma int_values_map: "int_values (map YInt ids) = Some ids"
  by (induction ids) simp_all

lemma ids_of_length: "ids_of ds = Inr vs \<Longrightarrow> length vs = length ds"
  by (induction ds arbitrary: vs) (auto simp: bind_exn_def split: sum.splits)

lemma fold_max_Max: "fold max js (i::int) = Max (set (i # js))"
  by (simp only: Max.set_eq_fold)

lemma max_plus_one_ints:
  assumes "ids \<noteq> []"
  shows "max_plus_one (map YInt ids) = Inr (Max (set ids) + 1)"
proof -
  obtain i js where ids: "ids = i # js" using assms by (cases ids) auto
  have "max_plus_one (map YInt ids) = Inr (fold max js i + 1)"
    unfolding max_plus_one_def int_values_map ids by simp
  then show ?thesis unfolding fold_max_Max ids .
qed

lemma next_id_list:
  assumes "ids_of ds = Inr (map YInt ids)"
  shows "next_id (YList ds) = Inr (if ids = [] then 1 else Max (set ids) + 1)"
proof (cases "ids = []")
  case True
  then have "ds = []" using ids_of_length [OF assms] by simp
  then show ?thesis using True by (simp add: next_id_def)
next
  case False
  then have "ds \<noteq> []" using ids_of_length [OF assms] by auto
  then show ?thesis using False assms
    by (simp add: next_id_def bind_exn_def max_plus_one_ints)
qed

lemma new_device_name: "py_getitem (new_device_dict n data) ''name'' = Inr (YStr (name data))"
  by (simp add: new_device_dict_def)

lemma CreateDevice_result:
  assumes "load_devices w = Inr (YList ds)" and "next_id (YList ds) = Inr n"
  shows "\<exists>t. CreateDevice_mutate E data w =
            (Inr (new_device_dict n data),
             \<lparr>devices_file = Document (YDict [(''devices'', YList (ds @ [new_device_dict n data]))]),
              trace = trace w @ EvSave (YDict [(''devices'', YList (ds @ [new_device_dict n data]))]) # t\<rparr>)
          \<and> list_all is_transport t"
  using assms save_then_configure_result [OF new_device_name, of E "YList (ds @ [new_device_dict n data])" n data w]
  by (simp add: CreateDevice_mutate_def Let_def)

lemma load_devices_saved:
  "devices_file w = Document (YDict [(''devices'', v)]) \<Longrightarrow> load_devices w = Inr v"
  by (simp add: load_devices_def)

lemma resolve_skip:
  assumes "ids_of ds = Inr (map YInt ids)" and "n \<notin> set ids"
  shows "resolve_device_by_id_loop (ds @ rest) n = resolve_device_by_id_loop rest n"
  using assms
proof (induction ds arbitrary: ids)
  case Nil
  then show ?case by simp
next
  case (Cons d ds)
  from Cons.prems(1) obtain v vs where v: "py_getitem d ''id'' = Inr v"
    and vs: "ids_of ds = Inr vs" and eq: "v # vs = map YInt ids"
    by (auto simp: bind_exn_def split: sum.splits)
  from eq obtain k ks where ids: "ids = k # ks" and vk: "v = YInt k" and vks: "vs = map YInt ks"
    by (cases ids) auto
  from v obtain kvs where d: "d = YDict kvs" and look: "map_of kvs ''id'' = Some v"
    by (cases d) (auto split: option.splits)
  have "k \<noteq> n" and "n \<notin> set ks" using Cons.prems(2) ids by auto
  then show ?case using Cons.IH [of ks] vs vks d look vk by (simp add: attr_def)
qed

lemma Device_new_created:
  "Device_new [(''id'', YInt n), (''name'', YStr a), (''host'', YStr b), (''username'', YStr c),
               (''password'', YStr d), (''secret'', YStr e), (''device_type'', YStr f)]
   = Inr \<lparr>d_id = YInt n, d_name = YStr a, d_host = YStr b, d_username = YStr c,
          d_password = YStr d, d_secret = YStr e, d_device_type = YStr f\<rparr>"
  by (simp add: Device_new_def Device_fields_def attr_def)

lemma Max_plus_one_fresh: "ids \<noteq> [] \<Longrightarrow> Max (set ids) + 1 \<notin> set (ids :: int list)"
proof
  assume "ids \<noteq> []" and "Max (set ids) + 1 \<in> set ids"
  then have "Max (set ids) + 1 \<le> Max (set ids)" by (intro Max_ge) auto
  then show False by simp
qed

lemma resolve_created:
  assumes "ids_of ds = Inr (map YInt ids)" and "n \<notin> set ids"
    and "devices_file w' = Document (YDict [(''devices'', YList (ds @ [new_device_dict n data]))])"
  shows "resolve_device_by_id w' n =
           Inr (Some \<lparr>d_id = YInt n, d_name = YStr (name data), d_host = YStr (host data),
                      d_username = YStr (username data), d_password = YStr (password data),
                      d_secret = YStr (secret data), d_device_type = YStr (device_type data)\<rparr>)"
proof -
  have "resolve_device_by_id w' n = resolve_device_by_id_loop (ds @ [new_device_dict n data]) n"
    using load_devices_saved [OF assms(3)] by (simp add: resolve_device_by_id_def bind_exn_def)
  also have "\<dots> = resolve_device_by_id_loop [new_device_dict n data] n"
    using resolve_skip [OF assms(1,2)] .
  also have "\<dots> = Inr (Some \<lparr>d_id = YInt n, d_name = YStr (name data), d_host = YStr (host data),
                      d_username = YStr (username data), d_password = YStr (password data),
                      d_secret = YStr (secret data), d_device_type = YStr (device_type data)\<rparr>)"
    by (simp add: new_device_dict_def attr_def Device_new_created bind_exn_def)
  finally show ?thesis .
qed




lemma UpdateDevice_loop_no_match:
  assumes "\<forall>d\<in>set ds. py_getitem d ''id'' \<noteq> Inr (YInt i)"
  shows "snd (UpdateDevice_loop E i data seen ds w) = w
       \<and> (\<forall>d. fst (UpdateDevice_loop E i data seen ds w) \<noteq> Inr (Some d))"
  using assms
  by (induction ds arbitrary: seen) (auto split: sum.splits)

lemma UpdateDevice_loop_none:
  assumes "\<forall>d\<in>set ds. \<exists>v. py_getitem d ''id'' = Inr v \<and> v \<noteq> YInt i"
  shows "UpdateDevice_loop E i data seen ds w = (Inr None, w)"
  using assms
  by (induction ds arbitrary: seen) (auto split: sum.splits)


text \<open>The example inventories, loaded.\<close>

lemma load_example_world:
  "load_devices example_world = Inr (YList [example_device 1 ''r1'', example_device 4 ''r4''])"
  by (simp add: load_devices_def example_world_def)


lemma ids_example_world:
  "ids_of [example_device 1 ''r1'', example_device 4 ''r4''] = Inr (map YInt [1, 4])"
  by (simp add: example_device_def bind_exn_def)

lemma stored_example_world:
  "stored_devices example_world = [example_device 1 ''r1'', example_device 4 ''r4'']"
  by (simp add: stored_devices_def load_example_world)



lemma update_unreachable_trace:
  "trace (snd (UpdateDevice_mutate unreachable_env 7 example_input legacy_world)) =
     [EvSave (YDict [(''devices'', YList [example_device 1 ''r1'',
        YDict [(''id'', YInt 7), (''name'', YStr ''r9''), (''ip'', YStr ''10.0.0.7''),
               (''username'', YStr ''cisco''), (''password'', YStr ''pw''),
               (''device_type'', YStr ''cisco_ios''), (''host'', YStr ''10.0.0.9''), (''secret'', YStr ''en'')]])]),
      EvConnect [(''device_type'', YStr ''cisco_ios''), (''host'', YStr ''10.0.0.7''),
                 (''username'', YStr ''cisco''), (''password'', YStr ''pw'')]]"
  by (simp add: UpdateDevice_mutate_def load_devices_def legacy_world_def example_device_def
        legacy_device_def update_fields_def bind_exn_def save_then_configure_def save_devices_def
        log_event_def hostname_commands_def configure_device_def configure_device_try_def
        configure_device_args_def configure_device_session_def unreachable_env_def example_input_def
        Let_def)

text \<open>
  \<^bold>\<open>C7.\<close> On an inventory that loads as a list of records with the integer
  identifiers \<open>ids\<close>, \<open>createDevice\<close> returns the record with identifier
  \<open>Max ids + 1\<close> (\<open>1\<close> for the empty inventory) and the fields of the input, and
  \<open>deviceById\<close> with that identifier right afterwards returns the \<open>Device\<close> with the
  same seven attributes.
\<close>

theorem CreateDevice_next_id_roundtrip:
  assumes "load_devices w = Inr (YList ds)"
    and "ids_of ds = Inr (map YInt ids)"
    and "n = (if ids = [] then 1 else Max (set ids) + 1)"
  shows "\<exists>w'. CreateDevice_mutate E data w = (Inr (new_device_dict n data), w')
            \<and> py_getitem (new_device_dict n data) ''id'' = Inr (YInt n)
            \<and> Device_new (case new_device_dict n data of YDict kvs \<Rightarrow> kvs | v \<Rightarrow> []) =
                 Inr \<lparr>d_id = YInt n, d_name = YStr (name data), d_host = YStr (host data),
                      d_username = YStr (username data), d_password = YStr (password data),
                      d_secret = YStr (secret data), d_device_type = YStr (device_type data)\<rparr>
            \<and> resolve_device_by_id w' n =
                 Inr (Some \<lparr>d_id = YInt n, d_name = YStr (name data), d_host = YStr (host data),
                      d_username = YStr (username data), d_password = YStr (password data),
                      d_secret = YStr (secret data), d_device_type = YStr (device_type data)\<rparr>)"
proof -
  have nid: "next_id (YList ds) = Inr n" using next_id_list [OF assms(2)] assms(3) by simp
  have fresh: "n \<notin> set ids" using assms(3) Max_plus_one_fresh [of ids] by (cases "ids = []") auto
  obtain t where res: "CreateDevice_mutate E data w =
            (Inr (new_device_dict n data),
             \<lparr>devices_file = Document (YDict [(''devices'', YList (ds @ [new_device_dict n data]))]),
              trace = trace w @ EvSave (YDict [(''devices'', YList (ds @ [new_device_dict n data]))]) # t\<rparr>)"
    using CreateDevice_result [OF assms(1) nid] by blast
  let ?w' = "\<lparr>devices_file = Document (YDict [(''devices'', YList (ds @ [new_device_dict n data]))]),
              trace = trace w @ EvSave (YDict [(''devices'', YList (ds @ [new_device_dict n data]))]) # t\<rparr>"
  have "resolve_device_by_id ?w' n =
          Inr (Some \<lparr>d_id = YInt n, d_name = YStr (name data), d_host = YStr (host data),
                      d_username = YStr (username data), d_password = YStr (password data),
                      d_secret = YStr (secret data), d_device_type = YStr (device_type data)\<rparr>)"
    by (rule resolve_created [OF assms(2) fresh]) simp
  moreover have "py_getitem (new_device_dict n data) ''id'' = Inr (YInt n)"
    by (simp add: new_device_dict_def)
  moreover have "Device_new (case new_device_dict n data of YDict kvs \<Rightarrow> kvs | v \<Rightarrow> []) =
                 Inr \<lparr>d_id = YInt n, d_name = YStr (name data), d_host = YStr (host data),
                      d_username = YStr (username data), d_password = YStr (password data),
                      d_secret = YStr (secret data), d_device_type = YStr (device_type data)\<rparr>"
    by (simp add: new_device_dict_def Device_new_created)
  ultimately show ?thesis using res by blast
qed

theorem CreateDevice_roundtrip_witness:
  "load_devices example_world = Inr (YList [example_device 1 ''r1'', example_device 4 ''r4''])
   \<and> ids_of [example_device 1 ''r1'', example_device 4 ''r4''] = Inr (map YInt [1, 4])
   \<and> (\<exists>w'. CreateDevice_mutate unreachable_env example_input example_world = (Inr (new_device_dict 5 example_input), w')
         \<and> resolve_device_by_id w' 5 =
             Inr (Some \<lparr>d_id = YInt 5, d_name = YStr ''r9'', d_host = YStr ''10.0.0.9'',
                        d_username = YStr ''cisco'', d_password = YStr ''pw'', d_secret = YStr ''en'',
                        d_device_type = YStr ''cisco_ios''\<rparr>))"
proof -
  have n: "(5::int) = (if [1, 4] = ([] :: int list) then 1 else Max (set [1, 4]) + 1)" by simp
  from CreateDevice_next_id_roundtrip [OF load_example_world ids_example_world n, of unreachable_env example_input]
  obtain w' where "CreateDevice_mutate unreachable_env example_input example_world = (Inr (new_device_dict 5 example_input), w')"
    and "resolve_device_by_id w' 5 =
                 Inr (Some \<lparr>d_id = YInt 5, d_name = YStr (name example_input), d_host = YStr (host example_input),
                      d_username = YStr (username example_input), d_password = YStr (password example_input),
                      d_secret = YStr (secret example_input), d_device_type = YStr (device_type example_input)\<rparr>)"
    by blast
  then show ?thesis using load_example_world ids_example_world by (auto simp: example_input_def)
qed

text \<open>
  \<^bold>\<open>C9.\<close> \<open>updateDevice\<close> with an identifier that no stored record carries leaves the
  world as it was (the file is not written, nothing is sent to a device) and yields no
  device; when every stored record has an identifier it returns \<open>None\<close>.
\<close>

theorem UpdateDevice_unknown_id:
  assumes "\<forall>d\<in>set (stored_devices w). py_getitem d ''id'' \<noteq> Inr (YInt i)"
  shows "snd (UpdateDevice_mutate E i data w) = w
       \<and> (\<forall>d. fst (UpdateDevice_mutate E i data w) \<noteq> Inr (Some d))
       \<and> ((\<exists>ds. load_devices w = Inr (YList ds) \<and> (\<forall>d\<in>set ds. \<exists>v. py_getitem d ''id'' = Inr v))
            \<longrightarrow> UpdateDevice_mutate E i data w = (Inr None, w))"
proof -
  have a: "snd (UpdateDevice_mutate E i data w) = w
       \<and> (\<forall>d. fst (UpdateDevice_mutate E i data w) \<noteq> Inr (Some d))"
  proof (cases "load_devices w")
    case (Inl e)
    then show ?thesis by (simp add: UpdateDevice_mutate_def)
  next
    case (Inr devices)
    show ?thesis
    proof (cases "py_iter devices")
      case (Inl e)
      then show ?thesis using Inr by (simp add: UpdateDevice_mutate_def)
    next
      case ds: (Inr ds)
      then have "stored_devices w = ds" using Inr by (simp add: stored_devices_def)
      then show ?thesis using assms Inr ds UpdateDevice_loop_no_match [of ds i E data "[]" w]
        by (simp add: UpdateDevice_mutate_def)
    qed
  qed
  have b: "UpdateDevice_mutate E i data w = (Inr None, w)"
    if l: "load_devices w = Inr (YList ds)" and wf: "\<forall>d\<in>set ds. \<exists>v. py_getitem d ''id'' = Inr v" for ds
  proof -
    have "stored_devices w = ds" using l by (simp add: stored_devices_def)
    then have "\<forall>d\<in>set ds. \<exists>v. py_getitem d ''id'' = Inr v \<and> v \<noteq> YInt i"
      using assms wf by fastforce
    then show ?thesis using l UpdateDevice_loop_none [of ds i E data "[]" w]
      by (simp add: UpdateDevice_mutate_def)
  qed
  show ?thesis using a b by blast
qed

theorem UpdateDevice_unknown_id_witness:
  "py_getitem (example_device 1 ''r1'') ''id'' = Inr (YInt 1)
   \<and> py_getitem (example_device 4 ''r4'') ''id'' = Inr (YInt 4)
   \<and> UpdateDevice_mutate answering_env 9 example_input example_world = (Inr None, example_world)"
proof -
  have i1: "py_getitem (example_device 1 ''r1'') ''id'' = Inr (YInt 1)"
    and i4: "py_getitem (example_device 4 ''r4'') ''id'' = Inr (YInt 4)"
    by (simp_all add: example_device_def)
  have h: "\<forall>d\<in>set (stored_devices example_world). py_getitem d ''id'' \<noteq> Inr (YInt 9)"
    using i1 i4 by (simp add: stored_example_world)
  have wf: "\<exists>ds. load_devices example_world = Inr (YList ds) \<and> (\<forall>d\<in>set ds. \<exists>v. py_getitem d ''id'' = Inr v)"
    using i1 i4 load_example_world by simp
  from UpdateDevice_unknown_id [OF h, of answering_env example_input] wf
  have "UpdateDevice_mutate answering_env 9 example_input example_world = (Inr None, example_world)"
    by blast
  then show ?thesis using i1 i4 by simp
qed



text \<open>
  \<^bold>\<open>C3.\<close> On a \<open>devices.yaml\<close> that does not parse, \<open>load_devices\<close> of
  \<open>netmiko_config.py\<close> raises \<open>YAMLError\<close>, where \<open>load_devices\<close> of \<open>app.py\<close> returns
  the empty list.
\<close>

theorem load_devices_malformed_raises:
  "load_devices malformed_world = Inl YAMLError
   \<and> app_load_devices malformed_world = Inr (YList [])"
  by (simp add: load_devices_def app_load_devices_def malformed_world_def)

subsection \<open>The admin routes\<close>

lemma access_denied_true:
  assumes "map_of session ''username'' = None \<or> (\<exists>r. map_of session ''role'' = Some r \<and> r \<noteq> YStr ''admin'')"
  shows "access_denied session = Inr True"
  using assms by (auto simp: access_denied_def bind_exn_def)

lemma admin_route_denied:
  assumes "access_denied session = Inr True"
  shows "admin_route session data w body = (Inr denied_response, w)"
  using assms by (simp add: admin_route_def admin_prelude_def bind_exn_def)

lemma login_user:
  "login (YDict [(''username'', YStr ''user''), (''password'', YStr ''user123'')]) [] =
     Inr (Response 200 (JDict [(''success'', JBool True), (''role'', JStr ''user''), (''username'', JStr ''user'')]),
          user_session)"
  by (simp add: login_def bind_exn_def USERS_def user_session_def)

text \<open>
  \<^bold>\<open>C1\<close>, as the code has it. On every admin route a request whose session has no
  \<open>username\<close>, or has a \<open>role\<close> other than \<open>admin\<close>, is answered with status 403 and the
  error \<open>Acceso denegado\<close>, and the world is unchanged: nothing was sent to a device.
\<close>

theorem admin_routes_reject_with_403:
  assumes "map_of session ''username'' = None \<or> (\<exists>r. map_of session ''role'' = Some r \<and> r \<noteq> YStr ''admin'')"
  shows "dispatch E url session data w = (Inr (Response 403 (JDict [(''error'', JStr ''Acceso denegado'')])), w)"
proof -
  have d: "access_denied session = Inr True" using assms by (rule access_denied_true)
  show ?thesis
    by (cases url)
       (simp_all add: get_device_config_def get_interfaces_def get_cdp_neighbors_def
          get_interface_traffic_def simulate_patch_def apply_yaml_template_def
          maintenance_backup_def change_device_password_def manage_users_def
          configure_acls_def security_audit_def admin_route_denied [OF d] denied_response_def)
qed

theorem admin_routes_reject_witness:
  "map_of user_session ''role'' = Some (YStr ''user'')
   \<and> dispatch answering_env SecurityAudit user_session (YDict [(''device_name'', YStr ''r1'')]) example_world =
       (Inr (Response 403 (JDict [(''error'', JStr ''Acceso denegado'')])), example_world)
   \<and> dispatch answering_env MonitoringConfig [] (YDict [(''device_name'', YStr ''r1'')]) example_world =
       (Inr (Response 403 (JDict [(''error'', JStr ''Acceso denegado'')])), example_world)"
proof -
  have h: "map_of user_session ''role'' = Some (YStr ''user'')" by (simp add: user_session_def)
  then have h1: "map_of user_session ''username'' = None \<or>
                 (\<exists>r. map_of user_session ''role'' = Some r \<and> r \<noteq> YStr ''admin'')"
    by simp
  have h2: "map_of ([] :: session) ''username'' = None \<or>
                 (\<exists>r. map_of ([] :: session) ''role'' = Some r \<and> r \<noteq> YStr ''admin'')"
    by simp
  show ?thesis
    using h admin_routes_reject_with_403 [OF h1, of answering_env SecurityAudit "YDict [(''device_name'', YStr ''r1'')]" example_world]
      admin_routes_reject_with_403 [OF h2, of answering_env MonitoringConfig "YDict [(''device_name'', YStr ''r1'')]" example_world]
    by simp
qed

text \<open>
  C1 as stated fails: without a session, \<open>/monitoring/config\<close> answers 403, not 401.
\<close>

theorem get_device_config_without_session_is_403:
  "fst (get_device_config answering_env [] (YDict [(''device_name'', YStr ''r1'')]) example_world) =
     Inr (Response 403 (JDict [(''error'', JStr ''Acceso denegado'')]))"
  by (simp add: get_device_config_def admin_route_def admin_prelude_def access_denied_def
        bind_exn_def denied_response_def)

subsection \<open>Template application\<close>

text \<open>
  With the session of an administrator the same route goes on: 404 for a name that is
  not in the inventory, and for a known device one session, one command, and the
  session closed.
\<close>

lemma get_device_config_unknown_device:
  "get_device_config answering_env admin_session (YDict [(''device_name'', YStr ''zz'')]) example_world =
     (Inr (Response 404 (JDict [(''error'', JStr ''Dispositivo no encontrado'')])), example_world)"
  by (simp add: get_device_config_def admin_route_def admin_prelude_def access_denied_def
        admin_session_def bind_exn_def app_load_devices_def example_world_def example_device_def
        not_found_response_def)

lemma get_device_config_admin_example:
  "get_device_config answering_env admin_session (YDict [(''device_name'', YStr ''r1'')]) example_world =
     (Inr (Response 200 (JDict [(''success'', JBool True), (''device'', JValue (YStr ''r1'')),
                                (''config'', JStr ''done: show running-config'')])),
      example_world\<lparr>trace :=
        [EvConnect [(''device_type'', YStr ''cisco_ios''), (''host'', YStr ''10.0.0.1''),
                    (''username'', YStr ''cisco''), (''password'', YStr ''pw''),
                    (''secret'', YStr ''en''), (''timeout'', YInt 10)],
         EvSendCommand ''show running-config'', EvDisconnect]\<rparr>)"
  by (simp add: get_device_config_def admin_route_def admin_prelude_def access_denied_def
        admin_session_def bind_exn_def app_load_devices_def example_world_def example_device_def
        monitoring_body_def connect_to_device_def connect_args_def answering_env_def
        send_command_def disconnect_def log_event_def)

lemma apply_template_loop_acc:
  "apply_template_loop E cs acc w =
     (acc @ fst (apply_template_loop E cs [] w), snd (apply_template_loop E cs [] w))"
proof (induction cs arbitrary: acc w)
  case Nil
  show ?case by simp
next
  case (Cons c cs)
  obtain r w' where r: "run_template_command E c w = (r, w')" by (cases "run_template_command E c w")
  show ?case
    using Cons.IH [of "acc @ [template_entry E c r]" w'] Cons.IH [of "[template_entry E c r]" w'] r
    by simp
qed

lemma apply_template_loop_Cons:
  "apply_template_loop E (c # cs) [] w =
     (template_entry E c (fst (run_template_command E c w))
        # fst (apply_template_loop E cs [] (snd (run_template_command E c w))),
      snd (apply_template_loop E cs [] (snd (run_template_command E c w))))"
proof -
  obtain r w' where r: "run_template_command E c w = (r, w')" by (cases "run_template_command E c w")
  show ?thesis using apply_template_loop_acc [of E cs "[template_entry E c r]" w'] r by simp
qed

lemma world_before_0: "world_before E cs 0 w = w"
  by (simp add: world_before_def)

lemma world_before_Suc:
  "world_before E (c # cs) (Suc k) w = world_before E cs k (snd (run_template_command E c w))"
  by (simp add: world_before_def apply_template_loop_Cons del: apply_template_loop.simps)

lemma apply_template_loop_length:
  "length (fst (apply_template_loop E cs [] w)) = length cs"
  by (induction cs arbitrary: w) (simp_all add: apply_template_loop_Cons del: apply_template_loop.simps(2))

lemma r_command_template_entry: "r_command (template_entry E c r) = c"
  by (cases r) (simp_all add: template_entry_def)

lemma apply_template_loop_commands:
  "map r_command (fst (apply_template_loop E cs [] w)) = cs"
  by (induction cs arbitrary: w)
     (simp_all add: apply_template_loop_Cons r_command_template_entry del: apply_template_loop.simps(2))

lemma apply_template_loop_nth:
  "k < length cs \<Longrightarrow>
   fst (apply_template_loop E cs [] w) ! k =
     template_entry E (cs ! k) (fst (run_template_command E (cs ! k) (world_before E cs k w)))"
proof (induction cs arbitrary: w k)
  case Nil
  then show ?case by simp
next
  case (Cons c cs)
  show ?case
  proof (cases k)
    case 0
    then show ?thesis by (simp add: apply_template_loop_Cons world_before_0 del: apply_template_loop.simps(2))
  next
    case (Suc j)
    then have "j < length cs" using Cons.prems by simp
    then show ?thesis using Cons.IH [of j "snd (run_template_command E c w)"] Suc
      by (simp add: apply_template_loop_Cons world_before_Suc del: apply_template_loop.simps(2))
  qed
qed

lemma world_before_step:
  "k < length cs \<Longrightarrow>
   world_before E cs (Suc k) w = snd (run_template_command E (cs ! k) (world_before E cs k w))"
proof (induction cs arbitrary: k w)
  case Nil
  then show ?case by simp
next
  case (Cons c cs)
  show ?case
  proof (cases k)
    case 0
    then show ?thesis by (simp add: world_before_Suc world_before_0)
  next
    case (Suc j)
    then have "j < length cs" using Cons.prems by simp
    then show ?thesis using Cons.IH [of j "snd (run_template_command E c w)"] Suc
      by (simp add: world_before_Suc)
  qed
qed

lemma world_before_all: "world_before E cs (length cs) w = snd (apply_template_loop E cs [] w)"
  by (simp add: world_before_def)

lemma apply_template_try_results:
  assumes "yaml_safe_load E template_content = Inr (YDict kvs)"
    and "map_of kvs ''commands'' = Some (YList cs)"
    and "connect_to_device E device w = (None, w1)"
  shows "apply_template_try E template_content device_name device w =
           (Inr (Response 200 (JDict [(''success'', JBool True), (''device'', JValue device_name),
                   (''results'', JList (map command_result_json (fst (apply_template_loop E cs [] w1))))])),
            disconnect (snd (apply_template_loop E cs [] w1)))"
  using assms by (simp add: apply_template_try_def bind_exn_def split: prod.splits)

text \<open>
  \<^bold>\<open>C5.\<close> The loop over the \<open>n\<close> commands of a template yields \<open>n\<close> entries, one
  per command and in the order of the commands. Every command is run in turn, in the
  world the commands before it left, whether they failed or not. The \<open>k\<close>-th entry has
  status \<open>success\<close> and the output of the \<open>k\<close>-th command when running that command
  returns, and status \<open>error\<close> and the text of the exception when it raises.
\<close>

theorem apply_template_loop_per_command:
  "length (fst (apply_template_loop E cs [] w)) = length cs
   \<and> map r_command (fst (apply_template_loop E cs [] w)) = cs
   \<and> snd (apply_template_loop E cs [] w) = world_before E cs (length cs) w
   \<and> (\<forall>k<length cs.
        world_before E cs (Suc k) w = snd (run_template_command E (cs ! k) (world_before E cs k w))
      \<and> (\<forall>output. fst (run_template_command E (cs ! k) (world_before E cs k w)) = Inr output \<longrightarrow>
           fst (apply_template_loop E cs [] w) ! k =
             \<lparr>r_command = cs ! k, r_output = output, r_status = ''success''\<rparr>)
      \<and> (\<forall>e. fst (run_template_command E (cs ! k) (world_before E cs k w)) = Inl e \<longrightarrow>
           fst (apply_template_loop E cs [] w) ! k =
             \<lparr>r_command = cs ! k, r_output = str_exn E e, r_status = ''error''\<rparr>))"
  by (simp add: apply_template_loop_length apply_template_loop_commands apply_template_loop_nth
        template_entry_def world_before_step world_before_all del: apply_template_loop.simps)

lemma example_template_0: "fst (run_template_command answering_env (example_template ! 0) (world_before answering_env example_template 0 example_world)) = Inr ''done: show version''"
  by (simp add: example_template_def world_before_def run_template_command_def send_command_def answering_env_def)

lemma example_template_1: "fst (run_template_command answering_env (example_template ! 1) (world_before answering_env example_template 1 example_world)) = Inl (OtherException ''Invalid input'')"
  by (simp add: example_template_def world_before_def run_template_command_def send_command_def answering_env_def)

lemma example_template_2: "fst (run_template_command answering_env (example_template ! 2) (world_before answering_env example_template 2 example_world)) = Inr ''done: show users''"
  by (simp add: example_template_def world_before_def run_template_command_def send_command_def answering_env_def)

theorem apply_template_loop_witness:
  "length (fst (apply_template_loop answering_env example_template [] example_world)) = 3
   \<and> fst (apply_template_loop answering_env example_template [] example_world) ! 0 =
        \<lparr>r_command = YStr ''show version'', r_output = ''done: show version'', r_status = ''success''\<rparr>
   \<and> fst (apply_template_loop answering_env example_template [] example_world) ! 1 =
        \<lparr>r_command = YStr ''bad'', r_output = ''Invalid input'', r_status = ''error''\<rparr>
   \<and> fst (apply_template_loop answering_env example_template [] example_world) ! 2 =
        \<lparr>r_command = YStr ''show users'', r_output = ''done: show users'', r_status = ''success''\<rparr>"
proof -
  note T = apply_template_loop_per_command [of answering_env example_template example_world]
  have len: "length example_template = 3" by (simp add: example_template_def)
  have s: "str_exn answering_env (OtherException ''Invalid input'') = ''Invalid input''"
    by (simp add: answering_env_def str_exn_example_def)
  have c: "example_template ! 0 = YStr ''show version''" "example_template ! 1 = YStr ''bad''" "example_template ! 2 = YStr ''show users''"
    by (simp_all add: example_template_def)
  from T len have l: "length (fst (apply_template_loop answering_env example_template [] example_world)) = 3" by simp
  from T len example_template_0 have e0: "fst (apply_template_loop answering_env example_template [] example_world) ! 0 =
        \<lparr>r_command = example_template ! 0, r_output = ''done: show version'', r_status = ''success''\<rparr>"
    by simp
  from T len example_template_1 have e1: "fst (apply_template_loop answering_env example_template [] example_world) ! 1 =
        \<lparr>r_command = example_template ! 1, r_output = str_exn answering_env (OtherException ''Invalid input''), r_status = ''error''\<rparr>"
    by simp
  from T len example_template_2 have e2: "fst (apply_template_loop answering_env example_template [] example_world) ! 2 =
        \<lparr>r_command = example_template ! 2, r_output = ''done: show users'', r_status = ''success''\<rparr>"
    by simp
  show ?thesis using l e0 e1 e2 s c by simp
qed

subsection \<open>Reachability\<close>

text \<open>
  \<^bold>\<open>C6.\<close> \<open>ping_device\<close> answers with status \<open>success\<close> and the parsed response time
  when the process exits with code 0, with status \<open>error\<close> and no response time when it
  exits with another code, and with status \<open>timeout\<close>, no response time and a fixed
  output text when the timeout expires, whatever output was captured until then.
\<close>

text \<open>In the example the third command is sent although the second was refused.\<close>

lemma example_template_trace:
  "trace (snd (apply_template_loop answering_env example_template [] example_world)) =
     [EvSendCommand ''show version'', EvSendCommand ''bad'', EvSendCommand ''show users'']"
  by (simp add: example_template_def run_template_command_def send_command_def answering_env_def
        example_world_def log_event_def)

theorem ping_device_status_mapping:
  "(subprocess_run E (trace w) (ping_command E h) = Completed 0 out err \<longrightarrow>
      p_status (fst (ping_device E h w)) = ''success''
      \<and> p_response_time (fst (ping_device E h w)) = extract_response_time out)
   \<and> (subprocess_run E (trace w) (ping_command E h) = Completed rc out err \<and> rc \<noteq> 0 \<longrightarrow>
      p_status (fst (ping_device E h w)) = ''error''
      \<and> p_response_time (fst (ping_device E h w)) = None)
   \<and> (subprocess_run E (trace w) (ping_command E h) = TimeoutExpired partial \<longrightarrow>
      p_status (fst (ping_device E h w)) = ''timeout''
      \<and> p_response_time (fst (ping_device E h w)) = None
      \<and> p_output (fst (ping_device E h w)) =
          ''El ping excedi'' @ [CHR 0xF3] @ '' el tiempo l'' @ [CHR 0xED] @ ''mite de 10 segundos'')"
  by (simp add: ping_device_def Let_def)

theorem ping_device_status_witness:
  "p_status (fst (ping_device answering_env (YStr ''10.0.0.1'') example_world)) = ''success''
   \<and> p_response_time (fst (ping_device answering_env (YStr ''10.0.0.1'') example_world)) = Some (117 / 5)
   \<and> p_status (fst (ping_device failing_ping_env (YStr ''10.0.0.1'') example_world)) = ''error''
   \<and> p_response_time (fst (ping_device failing_ping_env (YStr ''10.0.0.1'') example_world)) = None
   \<and> p_status (fst (ping_device unreachable_env (YStr ''10.0.0.1'') example_world)) = ''timeout''
   \<and> p_response_time (fst (ping_device unreachable_env (YStr ''10.0.0.1'') example_world)) = None"
proof -
  have a: "subprocess_run answering_env (trace example_world) (ping_command answering_env (YStr ''10.0.0.1'')) =
             Completed 0 ''64 bytes from 10.0.0.1: icmp_seq=1 ttl=64 time=23.4 ms'' []"
    by (simp add: answering_env_def)
  have b: "subprocess_run failing_ping_env (trace example_world) (ping_command failing_ping_env (YStr ''10.0.0.1'')) =
             Completed 1 ''ping: sendmsg'' '': unreachable'' \<and> (1::int) \<noteq> 0"
    by (simp add: failing_ping_env_def)
  have c: "subprocess_run unreachable_env (trace example_world) (ping_command unreachable_env (YStr ''10.0.0.1'')) =
             TimeoutExpired ''PING 10.0.0.1''"
    by (simp add: unreachable_env_def)
  have v: "extract_response_time ''64 bytes from 10.0.0.1: icmp_seq=1 ttl=64 time=23.4 ms'' = Some (117 / 5)"
    by code_simp
  from a v ping_device_status_mapping [of answering_env example_world "YStr ''10.0.0.1''"
          "''64 bytes from 10.0.0.1: icmp_seq=1 ttl=64 time=23.4 ms''" "[]"]
  have A: "p_status (fst (ping_device answering_env (YStr ''10.0.0.1'') example_world)) = ''success''
   \<and> p_response_time (fst (ping_device answering_env (YStr ''10.0.0.1'') example_world)) = Some (117 / 5)"
    by simp
  from b ping_device_status_mapping [of failing_ping_env example_world "YStr ''10.0.0.1''" "''ping: sendmsg''" "'': unreachable''" 1]
  have B: "p_status (fst (ping_device failing_ping_env (YStr ''10.0.0.1'') example_world)) = ''error''
   \<and> p_response_time (fst (ping_device failing_ping_env (YStr ''10.0.0.1'') example_world)) = None"
    by blast
  from c ping_device_status_mapping [of unreachable_env example_world "YStr ''10.0.0.1''" _ _ _ "''PING 10.0.0.1''"]
  have C: "p_status (fst (ping_device unreachable_env (YStr ''10.0.0.1'') example_world)) = ''timeout''
   \<and> p_response_time (fst (ping_device unreachable_env (YStr ''10.0.0.1'') example_world)) = None"
    by blast
  show ?thesis using A B C by blast
qed

text \<open>The loop of \<open>extract_response_time\<close>, line by line.\<close>

lemma line_time_unfold:
  "line_time l =
     (if contains l ''time='' \<or> contains l ''tiempo='' then map_option py_float (re_search_time l)
      else None)"
  by (simp add: line_time_def split: option.splits)







text \<open>
  \<^bold>\<open>C2.\<close> The Spanish marker passes the test \<open>'tiempo=' in line\<close>, but the pattern
  searched in the line only knows \<open>time\<close>: a line with \<open>tiempo=15 ms\<close> yields \<open>None\<close>,
  where the same line with \<open>time=15 ms\<close> yields 15.
\<close>

theorem extract_response_time_tiempo_unparsed:
  "extract_response_time ''tiempo=15 ms'' = None
   \<and> extract_response_time ''Respuesta desde 10.0.0.1: bytes=32 tiempo=15 ms TTL=64'' = None
   \<and> extract_response_time ''time=15 ms'' = Some 15"
  by code_simp

end
